theory Spec2Isabelle
  imports
    Complex_Main
    "HOL-Library.Multiset"
    "HOL-Library.Char_ord"
    "HOL-Library.List_Lexorder"
begin

section \<open>Python values used by the handlers of app.py\<close>

text \<open>
  A Python \<open>str\<close> is a sequence of Unicode code points, so it is modelled as a list of
  natural numbers (a \<open>char\<close> of HOL is a byte and could not hold U+2003). A text may
  hold a lone surrogate: the JSON parser turns the escape \<open>\ud800\<close> into one.
  \<open>ascii\<close> writes an ASCII literal as such a sequence.
\<close>

type_synonym pystr = "nat list"

definition ascii :: "string \<Rightarrow> pystr" where
  "ascii s = map of_char s"

text \<open>
  \<open>str.isspace\<close> on one code point: the characters \<open>str.strip()\<close> removes when it is
  called without an argument (U+0009..U+000D, U+001C..U+0020, U+0085, U+00A0, U+1680,
  U+2000..U+200A, U+2028, U+2029, U+202F, U+205F, U+3000).
\<close>

definition isspace :: "nat \<Rightarrow> bool" where
  "isspace c \<longleftrightarrow>
     (9 \<le> c \<and> c \<le> 13) \<or> (28 \<le> c \<and> c \<le> 32) \<or> c = 133 \<or> c = 160 \<or> c = 5760 \<or>
     (8192 \<le> c \<and> c \<le> 8202) \<or> c = 8232 \<or> c = 8233 \<or> c = 8239 \<or> c = 8287 \<or> c = 12288"

text \<open>\<open>s.strip()\<close>: leading and trailing whitespace removed.\<close>

definition strip :: "pystr \<Rightarrow> pystr" where
  "strip s = rev (dropWhile isspace (rev (dropWhile isspace s)))"

text \<open>
  What \<open>request.get_json\<close> can return: the Python value of a JSON document. Of a number
  the handlers observe only whether it is zero (NaN and the infinities, which the parser
  also accepts, are truthy like every other non-zero number). A JSON object is kept as its
  list of members in document order; the parser builds the dict from it, a later member
  replacing an earlier one with the same key.
\<close>

datatype json =
    JNull
  | JBool bool
  | JNum real
  | JStr pystr
  | JArr "json list"
  | JObj "(pystr \<times> json) list"

text \<open>Python's truth value of such a value (\<open>bool(v)\<close>), which \<open>or\<close> tests.\<close>

fun truthy :: "json \<Rightarrow> bool" where
  "truthy JNull = False"
| "truthy (JBool b) = b"
| "truthy (JNum x) = (x \<noteq> 0)"
| "truthy (JStr s) = (s \<noteq> [])"
| "truthy (JArr xs) = (xs \<noteq> [])"
| "truthy (JObj kvs) = (kvs \<noteq> [])"

text \<open>
  The exceptions the handlers can meet. Only \<open>IntegrityError\<close> is ever caught (by
  \<open>mark_attendance\<close>); an exception that is not caught ends the request as a generic
  server error.
\<close>

datatype exn = AttributeError | IntegrityError | UnicodeEncodeError

text \<open>
  \<open>request.get_json(silent=True) or {}\<close>. The argument is what \<open>get_json\<close> returned:
  \<open>None\<close> when the request has no JSON body or the body does not parse.
\<close>

definition payload_of :: "json option \<Rightarrow> json" where
  "payload_of body =
     (case body of
        None \<Rightarrow> JObj []
      | Some v \<Rightarrow> if truthy v then v else JObj [])"

text \<open>\<open>payload.get(k)\<close>: only a dict has the method; a missing key gives \<open>None\<close>.\<close>

definition py_get :: "json \<Rightarrow> pystr \<Rightarrow> exn + json option" where
  "py_get payload k =
     (case payload of
        JObj kvs \<Rightarrow> Inr (map_of (rev kvs) k)
      | _ \<Rightarrow> Inl AttributeError)"

text \<open>\<open>(v or "").strip()\<close>: only a str has the method.\<close>

definition or_empty_strip :: "json option \<Rightarrow> exn + pystr" where
  "or_empty_strip v =
     (case (case v of None \<Rightarrow> JStr [] | Some x \<Rightarrow> if truthy x then x else JStr []) of
        JStr s \<Rightarrow> Inr (strip s)
      | _ \<Rightarrow> Inl AttributeError)"

text \<open>\<open>(payload.get(k) or "").strip()\<close>, one of lines 136 to 138.\<close>

definition field :: "json \<Rightarrow> pystr \<Rightarrow> exn + pystr" where
  "field payload k =
     (case py_get payload k of
        Inl e \<Rightarrow> Inl e
      | Inr v \<Rightarrow> or_empty_strip v)"

section \<open>The database\<close>

text \<open>
  The two tables of \<open>init_db\<close>. A table is the list of its rows in the order they were
  inserted. A timestamp is the text \<open>datetime.utcnow().isoformat(timespec="seconds")\<close>
  produced; the storage engine compares text byte by byte, which is the lexicographic
  order of \<open>string\<close>. The counters are the engine's record of the largest row id each
  \<open>AUTOINCREMENT\<close> table has ever used. Row ids are unbounded here (the engine's limit of
  \<open>2^63 - 1\<close> rows is out of reach), and foreign keys are not enforced, as in the
  engine's default configuration.
\<close>

type_synonym timestamp = string

record session_row =
  s_id :: nat
  s_token :: pystr
  s_class_name :: pystr
  s_created_at :: timestamp

record attendance_row =
  a_id :: nat
  a_session_id :: nat
  a_student_id :: pystr
  a_student_name :: pystr
  a_marked_at :: timestamp

record db =
  sessions :: "session_row list"
  attendance :: "attendance_row list"
  seq_sessions :: nat
  seq_attendance :: nat

text \<open>\<open>init_db\<close> on a new database file: both tables exist and are empty.\<close>

definition init_db :: db where
  "init_db = \<lparr>sessions = [], attendance = [], seq_sessions = 0, seq_attendance = 0\<rparr>"

text \<open>
  \<open>INTEGER PRIMARY KEY AUTOINCREMENT\<close>: one more than the largest row id the table has
  ever held.
\<close>

definition next_rowid :: "nat \<Rightarrow> nat list \<Rightarrow> nat" where
  "next_rowid seq ids = Suc (fold max ids seq)"

text \<open>
  \<open>INSERT INTO sessions(token, class_name, created_at)\<close> and the commit. The column
  \<open>token\<close> is \<open>UNIQUE\<close>: a second row with a stored token is refused.
\<close>

definition insert_session :: "pystr \<Rightarrow> pystr \<Rightarrow> timestamp \<Rightarrow> db \<Rightarrow> exn + db" where
  "insert_session token class_name created_at d =
     (if \<exists>r \<in> set (sessions d). s_token r = token then Inl IntegrityError
      else
        let i = next_rowid (seq_sessions d) (map s_id (sessions d)) in
        Inr (d\<lparr>sessions := sessions d @
                 [\<lparr>s_id = i, s_token = token, s_class_name = class_name,
                   s_created_at = created_at\<rparr>],
               seq_sessions := i\<rparr>))"

text \<open>
  The driver hands a text parameter to the engine as UTF-8 and raises
  \<open>UnicodeEncodeError\<close>, before the statement runs, when the text has no UTF-8 form:
  when it holds a code point of the surrogate range U+D800..U+DFFF. (A number from
  \<open>0x110000\<close> on is no code point; it is counted with them.) The texts of a JSON body
  can be such texts. A form field and the token of a URL are decoded from bytes, and
  \<open>token_urlsafe\<close> and \<open>isoformat\<close> write ASCII, so the parameters of the other
  statements always have a UTF-8 form.
\<close>

definition encodable :: "pystr \<Rightarrow> bool" where
  "encodable s \<longleftrightarrow> (\<forall>c \<in> set s. c < 55296 \<or> (57343 < c \<and> c < 1114112))"

text \<open>
  \<open>INSERT INTO attendance(session_id, student_id, student_name, marked_at)\<close> and the
  commit, under \<open>UNIQUE(session_id, student_id)\<close>. The student id and the name come
  from the JSON body; they are bound before the engine checks the constraint.
\<close>

definition insert_attendance :: "nat \<Rightarrow> pystr \<Rightarrow> pystr \<Rightarrow> timestamp \<Rightarrow> db \<Rightarrow> exn + db" where
  "insert_attendance session_id student_id student_name marked_at d =
     (if \<not> encodable student_id \<or> \<not> encodable student_name then Inl UnicodeEncodeError
      else if \<exists>r \<in> set (attendance d).
                a_session_id r = session_id \<and> a_student_id r = student_id
      then Inl IntegrityError
      else
        let i = next_rowid (seq_attendance d) (map a_id (attendance d)) in
        Inr (d\<lparr>attendance := attendance d @
                 [\<lparr>a_id = i, a_session_id = session_id, a_student_id = student_id,
                   a_student_name = student_name, a_marked_at = marked_at\<rparr>],
               seq_attendance := i\<rparr>))"

text \<open>\<open>SELECT ... FROM sessions WHERE token = ?\<close> with \<open>fetchone()\<close>.\<close>

definition select_session :: "pystr \<Rightarrow> db \<Rightarrow> session_row option" where
  "select_session token d = find (\<lambda>r. s_token r = token) (sessions d)"

text \<open>
  The same statement with a token taken from a JSON body (line 144): binding the token
  comes first.
\<close>

definition select_session_bound :: "pystr \<Rightarrow> db \<Rightarrow> exn + session_row option" where
  "select_session_bound token d =
     (if encodable token then Inr (select_session token d) else Inl UnicodeEncodeError)"

text \<open>
  \<open>ORDER BY key DESC\<close>. SQL leaves the order of rows with equal keys open; the model
  fixes one (the engine's own choice follows the index its plan scans and is not
  reproduced), and no theorem below depends on which.
\<close>

definition order_by_desc :: "('a \<Rightarrow> 'k::linorder) \<Rightarrow> 'a list \<Rightarrow> 'a list" where
  "order_by_desc key rows = rev (sort_key key rows)"

text \<open>The query of \<open>home\<close> (lines 65 to 67).\<close>

definition select_sessions :: "db \<Rightarrow> session_row list" where
  "select_sessions d = order_by_desc s_id (sessions d)"

text \<open>
  The query of \<open>session_detail\<close> (lines 98 to 106): the columns \<open>student_id\<close>,
  \<open>student_name\<close>, \<open>marked_at\<close> of the rows of one session.
\<close>

definition attendance_view :: "attendance_row \<Rightarrow> pystr \<times> pystr \<times> timestamp" where
  "attendance_view r = (a_student_id r, a_student_name r, a_marked_at r)"

definition select_attendance :: "nat \<Rightarrow> db \<Rightarrow> (pystr \<times> pystr \<times> timestamp) list" where
  "select_attendance session_id d =
     map attendance_view
       (order_by_desc a_marked_at (filter (\<lambda>r. a_session_id r = session_id) (attendance d)))"

section \<open>The routes\<close>

text \<open>
  A response is what the view function returns: a JSON object \<open>{ok, message}\<close> with its
  status, a redirect to an endpoint, a rendered template with its arguments, a QR image
  (of the scan link of a token), a plain text with its status, or an exception that
  nothing caught. The scan link itself and the image encoding are library calls on the
  token and the host name; they read no table and are not modelled further.
\<close>

datatype endpoint = Home | Session_detail pystr

datatype response =
    Json bool string nat
  | Redirect endpoint
  | Home_html "session_row list"
  | Session_html session_row "(pystr \<times> pystr \<times> timestamp) list"
  | Scan_html pystr pystr
  | Qr_png pystr
  | Text string nat
  | Unhandled exn

definition home :: "db \<Rightarrow> response \<times> db" where
  "home d = (Home_html (select_sessions d), d)"

text \<open>
  \<open>create_session\<close>. \<open>form_class_name\<close> is the form field (\<open>None\<close> when the form has
  none), \<open>token\<close> what \<open>secrets.token_urlsafe(10)\<close> returned and \<open>created_at\<close> the clock's
  reading. The \<open>IntegrityError\<close> of the insert is not caught here.
\<close>

definition create_session :: "pystr option \<Rightarrow> pystr \<Rightarrow> timestamp \<Rightarrow> db \<Rightarrow> response \<times> db" where
  "create_session form_class_name token created_at d =
     (let class_name = strip (case form_class_name of None \<Rightarrow> [] | Some v \<Rightarrow> v) in
      if class_name = [] then (Redirect Home, d)
      else
        (case insert_session token class_name created_at d of
           Inl e \<Rightarrow> (Unhandled e, d)
         | Inr d' \<Rightarrow> (Redirect (Session_detail token), d')))"

definition session_detail :: "pystr \<Rightarrow> db \<Rightarrow> response \<times> db" where
  "session_detail token d =
     (case select_session token d of
        None \<Rightarrow> (Text ''Session not found'' 404, d)
      | Some session \<Rightarrow> (Session_html session (select_attendance (s_id session) d), d))"

definition qr_code :: "pystr \<Rightarrow> db \<Rightarrow> response \<times> db" where
  "qr_code token d = (Qr_png token, d)"

definition scan_page :: "pystr \<Rightarrow> db \<Rightarrow> response \<times> db" where
  "scan_page token d =
     (case select_session token d of
        None \<Rightarrow> (Text ''Session not found'' 404, d)
      | Some session \<Rightarrow> (Scan_html token (s_class_name session), d))"

text \<open>
  \<open>mark_attendance\<close>. \<open>body\<close> is what \<open>request.get_json(silent=True)\<close> returned and
  \<open>now\<close> the clock's reading. An exception other than \<open>IntegrityError\<close> passes the
  \<open>except\<close> clause of line 159.
\<close>

definition mark_attendance :: "json option \<Rightarrow> timestamp \<Rightarrow> db \<Rightarrow> response \<times> db" where
  "mark_attendance body now d =
     (let payload = payload_of body in
      (case field payload (ascii ''token'') of
         Inl e \<Rightarrow> (Unhandled e, d)
       | Inr token \<Rightarrow>
      (case field payload (ascii ''student_id'') of
         Inl e \<Rightarrow> (Unhandled e, d)
       | Inr student_id \<Rightarrow>
      (case field payload (ascii ''student_name'') of
         Inl e \<Rightarrow> (Unhandled e, d)
       | Inr student_name \<Rightarrow>
      (if token = [] \<or> student_id = [] \<or> student_name = [] then
         (Json False ''token, student_id and student_name are required'' 400, d)
       else
         (case select_session_bound token d of
            Inl e \<Rightarrow> (Unhandled e, d)
          | Inr None \<Rightarrow> (Json False ''Invalid session token'' 404, d)
          | Inr (Some session) \<Rightarrow>
              (case insert_attendance (s_id session) student_id student_name now d of
                 Inl IntegrityError \<Rightarrow>
                   (Json False ''Attendance already marked for this student'' 409, d)
               | Inl e \<Rightarrow> (Unhandled e, d)
               | Inr d' \<Rightarrow> (Json True ''Attendance marked successfully'' 200, d'))))))))"

text \<open>
  The requests of the HTTP surface, each with what the environment supplies to its
  handler, and the states the application can reach from a new database.
\<close>

datatype request =
    Get_home
  | Post_create_session "pystr option" pystr timestamp
  | Get_session_detail pystr
  | Get_qr_code pystr
  | Get_scan_page pystr
  | Post_mark_attendance "json option" timestamp

fun handle :: "request \<Rightarrow> db \<Rightarrow> response \<times> db" where
  "handle Get_home d = home d"
| "handle (Post_create_session f t c) d = create_session f t c d"
| "handle (Get_session_detail t) d = session_detail t d"
| "handle (Get_qr_code t) d = qr_code t d"
| "handle (Get_scan_page t) d = scan_page t d"
| "handle (Post_mark_attendance b n) d = mark_attendance b n d"

fun run :: "request list \<Rightarrow> db \<Rightarrow> db" where
  "run [] d = d"
| "run (r # rs) d = run rs (snd (handle r d))"

section \<open>Notions the properties are stated with\<close>

text \<open>
  The JSON body \<open>{token, student_id, student_name}\<close> of the interface, with three text
  fields: the request \<open>MarkAttendance(token, student_id, student_name)\<close>.
\<close>

definition mark_request :: "pystr \<Rightarrow> pystr \<Rightarrow> pystr \<Rightarrow> json option" where
  "mark_request token student_id student_name =
     Some (JObj [(ascii ''token'', JStr token), (ascii ''student_id'', JStr student_id),
                 (ascii ''student_name'', JStr student_name)])"

text \<open>The number of attendance records of a session.\<close>

definition attendance_count :: "nat \<Rightarrow> db \<Rightarrow> nat" where
  "attendance_count session_id d =
     length (filter (\<lambda>r. a_session_id r = session_id) (attendance d))"

text \<open>At most one attendance record for each pair \<open>(session_id, student_id)\<close>.\<close>

definition att_unique :: "db \<Rightarrow> bool" where
  "att_unique d \<longleftrightarrow> distinct (map (\<lambda>r. (a_session_id r, a_student_id r)) (attendance d))"

text \<open>No two stored sessions have the same token.\<close>

definition tokens_unique :: "db \<Rightarrow> bool" where
  "tokens_unique d \<longleftrightarrow> distinct (map s_token (sessions d))"

text \<open>
  The value of a member of a JSON object (of the last one, when a name is repeated), and
  what a request can hold in a field: \<open>text_value\<close> is a field that is a text, or is
  missing, null or another falsy value; \<open>blank_value\<close> is one that is missing, falsy, or
  a text of whitespace only.
\<close>

definition json_member :: "(pystr \<times> json) list \<Rightarrow> pystr \<Rightarrow> json option" where
  "json_member kvs k = map_of (rev kvs) k"

definition text_value :: "json option \<Rightarrow> bool" where
  "text_value v \<longleftrightarrow>
     (case v of None \<Rightarrow> True | Some (JStr s) \<Rightarrow> True | Some x \<Rightarrow> \<not> truthy x)"

definition blank_value :: "json option \<Rightarrow> bool" where
  "blank_value v \<longleftrightarrow>
     (case v of
        None \<Rightarrow> True
      | Some (JStr s) \<Rightarrow> (\<forall>c \<in> set s. isspace c)
      | Some x \<Rightarrow> \<not> truthy x)"

text \<open>Session ids grow with the order of creation.\<close>

definition ids_increasing :: "db \<Rightarrow> bool" where
  "ids_increasing d \<longleftrightarrow> sorted_wrt (<) (map s_id (sessions d))"

subsection \<open>Example databases\<close>

text \<open>
  The database of the specification's example: one session \<open>Algorithms 101\<close> with the
  token \<open>abc123\<close>.
\<close>

definition example_db :: db where
  "example_db =
     run [Post_create_session (Some (ascii ''Algorithms 101'')) (ascii ''abc123'')
            ''2024-01-01T09:00:00''] init_db"

text \<open>The same session under a token of the shape \<open>token_urlsafe(10)\<close> produces.\<close>

definition collision_db :: db where
  "collision_db =
     run [Post_create_session (Some (ascii ''Algorithms 101'')) (ascii ''q3Zr8kXw1LmN0a'')
            ''2024-01-01T09:00:00''] init_db"

definition two_sessions_db :: db where
  "two_sessions_db =
     run [Post_create_session (Some (ascii ''Algorithms 101'')) (ascii ''abc123'')
            ''2024-01-01T09:00:00'',
          Post_create_session (Some (ascii ''Data Structures'')) (ascii ''Zk1_0v-9QbT3xY'')
            ''2024-01-02T09:00:00''] init_db"

text \<open>Two sessions and three students' submissions, the last one the most recent.\<close>

definition marked_db :: db where
  "marked_db =
     run [Post_create_session (Some (ascii ''Algorithms 101'')) (ascii ''abc123'')
            ''2024-01-01T09:00:00'',
          Post_create_session (Some (ascii ''Data Structures'')) (ascii ''Zk1_0v-9QbT3xY'')
            ''2024-01-02T09:00:00'',
          Post_mark_attendance (mark_request (ascii ''abc123'') (ascii ''S1'') (ascii ''Ada''))
            ''2024-01-03T10:00:00'',
          Post_mark_attendance
            (mark_request (ascii ''Zk1_0v-9QbT3xY'') (ascii ''S1'') (ascii ''Ada''))
            ''2024-01-03T10:00:02'',
          Post_mark_attendance (mark_request (ascii ''abc123'') (ascii ''S2'') (ascii ''Bob''))
            ''2024-01-03T10:00:05''] init_db"

text \<open>One submission whose student id and name carry surrounding spaces.\<close>

definition marked_once_db :: db where
  "marked_once_db =
     run [Post_create_session (Some (ascii ''Algorithms 101'')) (ascii ''abc123'')
            ''2024-01-01T09:00:00'',
          Post_mark_attendance
            (mark_request (ascii ''abc123'') (ascii ''S1 '') (ascii '' Ada''))
            ''2024-01-01T10:00:00''] init_db"

section \<open>Lemmas on the model\<close>

lemmas eval_simps =
  ascii_def strip_def isspace_def encodable_def init_db_def next_rowid_def
  create_session_def insert_session_def insert_attendance_def select_session_def
  select_session_bound_def attendance_count_def

subsection \<open>Trimming and the fields of a request\<close>

lemma keys_neq:
  "ascii ''token'' \<noteq> ascii ''student_id''" "ascii ''token'' \<noteq> ascii ''student_name''"
  "ascii ''student_id'' \<noteq> ascii ''student_name''"
  by (simp_all add: ascii_def)

lemma dropWhile_all: "(\<forall>x \<in> set (dropWhile P xs). P x) \<longleftrightarrow> (\<forall>x \<in> set xs. P x)"
  by (induction xs) auto

text \<open>A text trims to the empty text exactly when it is empty or whitespace only.\<close>

lemma strip_Nil_iff: "strip s = [] \<longleftrightarrow> (\<forall>c \<in> set s. isspace c)"
proof -
  have "strip s = [] \<longleftrightarrow> (\<forall>c \<in> set (dropWhile isspace s). isspace c)"
    by (simp add: strip_def)
  then show ?thesis
    by (simp only: dropWhile_all)
qed

lemma field_mark_request:
  "field (payload_of (mark_request t i n)) (ascii ''token'') = Inr (strip t)"
  "field (payload_of (mark_request t i n)) (ascii ''student_id'') = Inr (strip i)"
  "field (payload_of (mark_request t i n)) (ascii ''student_name'') = Inr (strip n)"
  by (simp_all add: mark_request_def payload_of_def field_def py_get_def or_empty_strip_def
      keys_neq strip_def)

text \<open>The handler on a body with three text fields.\<close>

lemma mark_attendance_request:
  "mark_attendance (mark_request t i n) now d =
     (if strip t = [] \<or> strip i = [] \<or> strip n = [] then
        (Json False ''token, student_id and student_name are required'' 400, d)
      else if \<not> encodable (strip t) then (Unhandled UnicodeEncodeError, d)
      else
        (case select_session (strip t) d of
           None \<Rightarrow> (Json False ''Invalid session token'' 404, d)
         | Some session \<Rightarrow>
             (case insert_attendance (s_id session) (strip i) (strip n) now d of
                Inl IntegrityError \<Rightarrow>
                  (Json False ''Attendance already marked for this student'' 409, d)
              | Inl e \<Rightarrow> (Unhandled e, d)
              | Inr d' \<Rightarrow> (Json True ''Attendance marked successfully'' 200, d'))))"
  by (simp add: mark_attendance_def Let_def field_mark_request select_session_bound_def
      split: option.splits)



text \<open>
  A field that is a text, or is missing or falsy, can be trimmed, and the result is empty
  when the field is missing, falsy or whitespace only.
\<close>

lemma or_empty_strip_text_value:
  assumes "text_value v"
  shows "\<exists>s. or_empty_strip v = Inr s \<and> (blank_value v \<longrightarrow> s = [])"
proof (cases v)
  case None
  then show ?thesis
    by (simp add: or_empty_strip_def strip_Nil_iff)
next
  case (Some x)
  with assms show ?thesis
    by (cases x)
      (auto simp: or_empty_strip_def text_value_def blank_value_def strip_Nil_iff)
qed

lemma field_text_value:
  assumes "text_value (json_member kvs k)"
  shows "\<exists>s. field (payload_of (Some (JObj kvs))) k = Inr s \<and>
           (blank_value (json_member kvs k) \<longrightarrow> s = [])"
  using or_empty_strip_text_value [OF assms]
  by (auto simp: field_def payload_of_def py_get_def json_member_def)

text \<open>
  A field that is present, truthy and not a text, or a body that is not an object, ends
  the request with the exception: such requests are outside the three outcomes 400, 404
  and 409.
\<close>

lemma mark_attendance_not_text:
  "mark_attendance (Some (JObj [(ascii ''token'', JNum 5)])) now d =
     (Unhandled AttributeError, d)"
  "mark_attendance (Some (JArr [JNull])) now d = (Unhandled AttributeError, d)"
  by (simp_all add: mark_attendance_def payload_of_def field_def py_get_def or_empty_strip_def)

subsection \<open>What the two inserts do\<close>

lemma fold_max_ge:
  "seq \<le> fold max ids seq \<and> (\<forall>i \<in> set ids. i \<le> fold max ids (seq::nat))"
proof (induction ids arbitrary: seq)
  case Nil
  then show ?case by simp
next
  case (Cons x xs)
  have "max x seq \<le> fold max xs (max x seq)"
    using Cons.IH [of "max x seq"] by simp
  then show ?case
    using Cons.IH [of "max x seq"] by auto
qed

lemma next_rowid_gt: "i \<in> set ids \<Longrightarrow> i < next_rowid seq ids"
  using fold_max_ge [of seq ids] by (auto simp: next_rowid_def less_Suc_eq_le)

lemma find_append_new:
  "\<forall>x \<in> set xs. \<not> P x \<Longrightarrow> P y \<Longrightarrow> find P (xs @ [y]) = Some y"
  by (induction xs) auto

lemma insert_attendance_Inr:
  assumes "insert_attendance sid i n now d = Inr d'"
  shows "attendance d' = attendance d @
           [\<lparr>a_id = next_rowid (seq_attendance d) (map a_id (attendance d)), a_session_id = sid,
             a_student_id = i, a_student_name = n, a_marked_at = now\<rparr>]"
    and "sessions d' = sessions d"
    and "\<not> (\<exists>r \<in> set (attendance d). a_session_id r = sid \<and> a_student_id r = i)"
    and "encodable i" and "encodable n"
  using assms by (auto simp: insert_attendance_def Let_def split: if_splits)

lemma insert_session_Inr:
  assumes "insert_session t c now d = Inr d'"
  shows "sessions d' = sessions d @
           [\<lparr>s_id = next_rowid (seq_sessions d) (map s_id (sessions d)), s_token = t,
             s_class_name = c, s_created_at = now\<rparr>]"
    and "attendance d' = attendance d"
    and "\<not> (\<exists>r \<in> set (sessions d). s_token r = t)"
  using assms by (auto simp: insert_session_def Let_def split: if_splits)

lemma select_session_insert_attendance:
  "insert_attendance sid i n now d = Inr d' \<Longrightarrow> select_session t d' = select_session t d"
  by (simp add: select_session_def insert_attendance_Inr(2))

subsection \<open>What a request does to the database\<close>

lemma mark_attendance_effect:
  "snd (mark_attendance b now d) = d \<or>
   (\<exists>sid i n. insert_attendance sid i n now d = Inr (snd (mark_attendance b now d)))"
  by (auto simp: mark_attendance_def Let_def split: sum.splits option.splits exn.splits if_splits)

text \<open>A stored token that no other session has is the one the lookup finds.\<close>

lemma find_distinct_key:
  "distinct (map f xs) \<Longrightarrow> x \<in> set xs \<Longrightarrow> find (\<lambda>r. f r = f x) xs = Some x"
  by (induction xs) (auto simp: image_iff)

lemma select_session_stored:
  assumes "tokens_unique d" and "session \<in> set (sessions d)"
  shows "select_session (s_token session) d = Some session"
  using assms by (simp add: tokens_unique_def select_session_def find_distinct_key)

lemma create_session_effect:
  "snd (create_session f t now d) = d \<or>
   (\<exists>c. insert_session t c now d = Inr (snd (create_session f t now d)))"
  by (auto simp: create_session_def Let_def split: sum.splits option.splits if_splits)

lemma reads_effect:
  "snd (home d) = d" "snd (session_detail t d) = d" "snd (qr_code t d) = d"
  "snd (scan_page t d) = d"
  by (simp_all add: home_def session_detail_def qr_code_def scan_page_def split: option.splits)

text \<open>Every request leaves the database as it is or performs exactly one insert.\<close>

lemma handle_effect:
  "snd (handle r d) = d \<or>
   (\<exists>sid i n now. insert_attendance sid i n now d = Inr (snd (handle r d))) \<or>
   (\<exists>t c now. insert_session t c now d = Inr (snd (handle r d)))"
proof (cases r)
  case (Post_create_session f t c)
  then show ?thesis using create_session_effect [of f t c d] by auto
next
  case (Post_mark_attendance b n)
  then show ?thesis using mark_attendance_effect [of b n d] by auto
qed (simp_all add: reads_effect)

text \<open>The page of a stored session lists \<open>select_attendance\<close> of its id.\<close>

lemma session_detail_found:
  "select_session token d = Some session \<Longrightarrow>
     session_detail token d = (Session_html session (select_attendance (s_id session) d), d)"
  by (simp add: session_detail_def)

subsection \<open>The two invariants\<close>

lemma att_unique_insert:
  assumes "att_unique d" and "insert_attendance sid i n now d = Inr d'"
  shows "att_unique d'"
  using assms(1) insert_attendance_Inr(1,3) [OF assms(2)]
  by (auto simp: att_unique_def)

lemma att_unique_insert_session:
  assumes "att_unique d" and "insert_session t c now d = Inr d'"
  shows "att_unique d'"
  using assms(1) insert_session_Inr(2) [OF assms(2)]
  by (simp add: att_unique_def)

lemma att_unique_handle: "att_unique d \<Longrightarrow> att_unique (snd (handle r d))"
  using handle_effect [of r d] by (auto intro: att_unique_insert att_unique_insert_session)

lemma att_unique_run: "att_unique d \<Longrightarrow> att_unique (run rs d)"
  by (induction rs arbitrary: d) (simp_all add: att_unique_handle)

lemma att_unique_init: "att_unique init_db"
  by (simp add: att_unique_def init_db_def)

text \<open>
  \<open>att_unique\<close> read as a count: no pair \<open>(session_id, student_id)\<close> has more than one
  record.
\<close>

lemma distinct_map_filter_le1:
  "distinct (map f xs) \<longleftrightarrow> (\<forall>k. length (filter (\<lambda>x. f x = k) xs) \<le> 1)"
proof (induction xs)
  case Nil
  then show ?case by simp
next
  case (Cons x xs)
  show ?case
  proof
    assume d: "distinct (map f (x # xs))"
    then have "\<forall>y \<in> set xs. f y \<noteq> f x"
      by (metis distinct.simps(2) list.simps(9) set_map image_eqI)
    then have nx: "filter (\<lambda>y. f y = f x) xs = []"
      by (simp add: filter_empty_conv)
    from d Cons have le: "\<forall>k. length (filter (\<lambda>x. f x = k) xs) \<le> 1"
      by simp
    show "\<forall>k. length (filter (\<lambda>y. f y = k) (x # xs)) \<le> 1"
      using nx le by auto
  next
    assume a: "\<forall>k. length (filter (\<lambda>y. f y = k) (x # xs)) \<le> 1"
    have "filter (\<lambda>y. f y = f x) xs = []"
      using a [rule_format, of "f x"] by simp
    then have notin: "f x \<notin> f ` set xs"
      by (metis (mono_tags, lifting) filter_empty_conv imageE)
    have "\<forall>k. length (filter (\<lambda>y. f y = k) xs) \<le> 1"
    proof
      fix k
      show "length (filter (\<lambda>y. f y = k) xs) \<le> 1"
        using a [rule_format, of k] by (simp split: if_splits)
    qed
    with Cons notin show "distinct (map f (x # xs))"
      by simp
  qed
qed

lemma att_unique_iff:
  "att_unique d \<longleftrightarrow>
     (\<forall>session_id student_id.
        length (filter (\<lambda>r. a_session_id r = session_id \<and> a_student_id r = student_id)
          (attendance d)) \<le> 1)"
  by (simp add: att_unique_def distinct_map_filter_le1)

lemma ids_increasing_insert_session:
  assumes "ids_increasing d" and "insert_session t c now d = Inr d'"
  shows "ids_increasing d'"
  using assms(1) insert_session_Inr(1) [OF assms(2)]
    next_rowid_gt [of _ "map s_id (sessions d)" "seq_sessions d"]
  by (auto simp: ids_increasing_def sorted_wrt_append)

lemma ids_increasing_insert_attendance:
  assumes "ids_increasing d" and "insert_attendance sid i n now d = Inr d'"
  shows "ids_increasing d'"
  using assms(1) insert_attendance_Inr(2) [OF assms(2)]
  by (simp add: ids_increasing_def)

lemma ids_increasing_handle: "ids_increasing d \<Longrightarrow> ids_increasing (snd (handle r d))"
  using handle_effect [of r d]
  by (auto intro: ids_increasing_insert_session ids_increasing_insert_attendance)

lemma ids_increasing_run: "ids_increasing d \<Longrightarrow> ids_increasing (run rs d)"
  by (induction rs arbitrary: d) (simp_all add: ids_increasing_handle)

lemma tokens_unique_insert_session:
  assumes "tokens_unique d" and "insert_session t c now d = Inr d'"
  shows "tokens_unique d'"
  using assms(1) insert_session_Inr(1,3) [OF assms(2)]
  by (auto simp: tokens_unique_def)

lemma tokens_unique_insert_attendance:
  assumes "tokens_unique d" and "insert_attendance sid i n now d = Inr d'"
  shows "tokens_unique d'"
  using assms(1) insert_attendance_Inr(2) [OF assms(2)]
  by (simp add: tokens_unique_def)

lemma tokens_unique_handle: "tokens_unique d \<Longrightarrow> tokens_unique (snd (handle r d))"
  using handle_effect [of r d]
  by (auto intro: tokens_unique_insert_session tokens_unique_insert_attendance)

text \<open>In every state reached from a new database the stored tokens are distinct.\<close>

lemma tokens_unique_run: "tokens_unique (run rs init_db)"
proof -
  have step: "tokens_unique d \<Longrightarrow> tokens_unique (run rs d)" for d
    by (induction rs arbitrary: d) (simp_all add: tokens_unique_handle)
  have "tokens_unique init_db"
    by (simp add: tokens_unique_def init_db_def)
  then show ?thesis
    by (rule step)
qed

lemma select_sessions_rev:
  assumes "ids_increasing d"
  shows "select_sessions d = rev (sessions d)"
proof -
  have "sorted (map s_id (sessions d))"
    using assms by (simp add: ids_increasing_def strict_sorted_imp_sorted)
  then show ?thesis
    by (simp add: select_sessions_def order_by_desc_def sort_key_id_if_sorted)
qed

subsection \<open>The example databases, evaluated\<close>

lemma example_db_eq:
  "example_db = \<lparr>sessions = [\<lparr>s_id = 1, s_token = ascii ''abc123'',
      s_class_name = ascii ''Algorithms 101'', s_created_at = ''2024-01-01T09:00:00''\<rparr>],
     attendance = [], seq_sessions = 1, seq_attendance = 0\<rparr>"
  by (simp add: example_db_def eval_simps)

lemma collision_db_eq:
  "collision_db = \<lparr>sessions = [\<lparr>s_id = 1, s_token = ascii ''q3Zr8kXw1LmN0a'',
      s_class_name = ascii ''Algorithms 101'', s_created_at = ''2024-01-01T09:00:00''\<rparr>],
     attendance = [], seq_sessions = 1, seq_attendance = 0\<rparr>"
  by (simp add: collision_db_def eval_simps)

lemma two_sessions_db_eq:
  "two_sessions_db =
     \<lparr>sessions =
        [\<lparr>s_id = 1, s_token = ascii ''abc123'', s_class_name = ascii ''Algorithms 101'',
          s_created_at = ''2024-01-01T09:00:00''\<rparr>,
         \<lparr>s_id = 2, s_token = ascii ''Zk1_0v-9QbT3xY'', s_class_name = ascii ''Data Structures'',
          s_created_at = ''2024-01-02T09:00:00''\<rparr>],
      attendance = [], seq_sessions = 2, seq_attendance = 0\<rparr>"
  by (simp add: two_sessions_db_def eval_simps)

lemma marked_db_eq:
  "marked_db =
     \<lparr>sessions =
        [\<lparr>s_id = 1, s_token = ascii ''abc123'', s_class_name = ascii ''Algorithms 101'',
          s_created_at = ''2024-01-01T09:00:00''\<rparr>,
         \<lparr>s_id = 2, s_token = ascii ''Zk1_0v-9QbT3xY'', s_class_name = ascii ''Data Structures'',
          s_created_at = ''2024-01-02T09:00:00''\<rparr>],
      attendance =
        [\<lparr>a_id = 1, a_session_id = 1, a_student_id = ascii ''S1'', a_student_name = ascii ''Ada'',
          a_marked_at = ''2024-01-03T10:00:00''\<rparr>,
         \<lparr>a_id = 2, a_session_id = 2, a_student_id = ascii ''S1'', a_student_name = ascii ''Ada'',
          a_marked_at = ''2024-01-03T10:00:02''\<rparr>,
         \<lparr>a_id = 3, a_session_id = 1, a_student_id = ascii ''S2'', a_student_name = ascii ''Bob'',
          a_marked_at = ''2024-01-03T10:00:05''\<rparr>],
      seq_sessions = 2, seq_attendance = 3\<rparr>"
  by (simp add: marked_db_def mark_attendance_request eval_simps)


lemma select_attendance_marked_db:
  "select_attendance 1 marked_db =
     [(ascii ''S2'', ascii ''Bob'', ''2024-01-03T10:00:05''),
      (ascii ''S1'', ascii ''Ada'', ''2024-01-03T10:00:00'')]"
  by (simp add: marked_db_eq select_attendance_def order_by_desc_def attendance_view_def
      less_eq_char_def)

section \<open>Marking attendance\<close>

text \<open>
  C1, as the handler has it. The texts of a request are handed to the database as UTF-8,
  and a text with a lone surrogate has no such form. In a database whose stored tokens
  are distinct (the schema's \<open>UNIQUE\<close>; every reachable state, by
  \<open>tokens_unique_run\<close>), take the token of a stored session, a student id that has
  no record for that session yet, and fields that after trimming are non-blank and have
  a UTF-8 form. Then \<open>MarkAttendance(token, student_id, student_name)\<close> succeeds: it
  answers 200 and adds one record, for that session, with the trimmed student id and
  name and the time of the call, so the session has one record more. A second call with
  the same token and student id (whatever non-blank name with a UTF-8 form and whatever
  time it carries) answers 409, the conflict signal, and leaves the database as the
  first call left it, so the session's count does not grow.
\<close>

theorem mark_attendance_succeeds_once:
  assumes unique: "tokens_unique d"
    and stored: "session \<in> set (sessions d)" "s_token session = strip token"
    and fresh: "\<not> (\<exists>r \<in> set (attendance d).
                   a_session_id r = s_id session \<and> a_student_id r = strip student_id)"
    and nonblank: "strip token \<noteq> []" "strip student_id \<noteq> []" "strip student_name \<noteq> []"
      "strip name2 \<noteq> []"
    and utf8: "encodable (strip token)" "encodable (strip student_id)"
      "encodable (strip student_name)" "encodable (strip name2)"
  shows "\<exists>d1 a.
      mark_attendance (mark_request token student_id student_name) now d =
        (Json True ''Attendance marked successfully'' 200, d1) \<and>
      sessions d1 = sessions d \<and> attendance d1 = attendance d @ [a] \<and>
      a_session_id a = s_id session \<and> a_student_id a = strip student_id \<and>
      a_student_name a = strip student_name \<and> a_marked_at a = now \<and>
      attendance_count (s_id session) d1 = Suc (attendance_count (s_id session) d) \<and>
      mark_attendance (mark_request token student_id name2) now2 d1 =
        (Json False ''Attendance already marked for this student'' 409, d1)"
proof -
  let ?a = "\<lparr>a_id = next_rowid (seq_attendance d) (map a_id (attendance d)),
             a_session_id = s_id session, a_student_id = strip student_id,
             a_student_name = strip student_name, a_marked_at = now\<rparr>"
  have valid: "select_session (strip token) d = Some session"
    using select_session_stored [OF unique stored(1)] stored(2) by simp
  obtain d1 where ins:
    "insert_attendance (s_id session) (strip student_id) (strip student_name) now d = Inr d1"
    using fresh utf8 by (auto simp: insert_attendance_def Let_def)
  have first: "mark_attendance (mark_request token student_id student_name) now d =
        (Json True ''Attendance marked successfully'' 200, d1)"
    using valid nonblank utf8 ins by (simp add: mark_attendance_request)
  have rows: "attendance d1 = attendance d @ [?a]" "sessions d1 = sessions d"
    using insert_attendance_Inr(1,2) [OF ins] by simp_all
  have count: "attendance_count (s_id session) d1 = Suc (attendance_count (s_id session) d)"
    by (simp add: attendance_count_def rows(1))
  have valid1: "select_session (strip token) d1 = Some session"
    using valid select_session_insert_attendance [OF ins] by simp
  have dup: "insert_attendance (s_id session) (strip student_id) (strip name2) now2 d1 =
      Inl IntegrityError"
    using utf8 by (simp add: insert_attendance_def rows(1))
  have second: "mark_attendance (mark_request token student_id name2) now2 d1 =
        (Json False ''Attendance already marked for this student'' 409, d1)"
    using valid1 nonblank utf8 dup by (simp add: mark_attendance_request)
  from first rows count second show ?thesis
    by (intro exI [of _ d1] exI [of _ ?a]) simp
qed

theorem mark_attendance_succeeds_once_witness:
  "\<exists>d1 a.
      mark_attendance (mark_request (ascii '' Zk1_0v-9QbT3xY'') (ascii ''S2 '') (ascii ''Bob''))
          ''2024-01-03T10:00:09'' marked_db =
        (Json True ''Attendance marked successfully'' 200, d1) \<and>
      sessions d1 = sessions marked_db \<and> attendance d1 = attendance marked_db @ [a] \<and>
      a_session_id a = 2 \<and> a_student_id a = ascii ''S2'' \<and>
      a_student_name a = ascii ''Bob'' \<and> a_marked_at a = ''2024-01-03T10:00:09'' \<and>
      attendance_count 2 d1 = Suc (attendance_count 2 marked_db) \<and>
      mark_attendance (mark_request (ascii '' Zk1_0v-9QbT3xY'') (ascii ''S2 '') (ascii ''Bob''))
          ''2024-01-03T10:00:15'' d1 =
        (Json False ''Attendance already marked for this student'' 409, d1)"
proof -
  let ?s = "\<lparr>s_id = 2, s_token = ascii ''Zk1_0v-9QbT3xY'',
            s_class_name = ascii ''Data Structures'', s_created_at = ''2024-01-02T09:00:00''\<rparr>"
  have unique: "tokens_unique marked_db"
    by (simp add: marked_db_eq tokens_unique_def ascii_def)
  have stored: "?s \<in> set (sessions marked_db)" "s_token ?s = strip (ascii '' Zk1_0v-9QbT3xY'')"
    by (simp_all add: marked_db_eq eval_simps)
  have fresh: "\<not> (\<exists>r \<in> set (attendance marked_db).
      a_session_id r = s_id ?s \<and> a_student_id r = strip (ascii ''S2 ''))"
    by (simp add: marked_db_eq eval_simps)
  have nonblank: "strip (ascii '' Zk1_0v-9QbT3xY'') \<noteq> []" "strip (ascii ''S2 '') \<noteq> []"
      "strip (ascii ''Bob'') \<noteq> []" "strip (ascii ''Bob'') \<noteq> []"
    by (simp_all add: eval_simps)
  have utf8: "encodable (strip (ascii '' Zk1_0v-9QbT3xY''))" "encodable (strip (ascii ''S2 ''))"
      "encodable (strip (ascii ''Bob''))" "encodable (strip (ascii ''Bob''))"
    by (simp_all add: eval_simps)
  have trimmed: "strip (ascii ''S2 '') = ascii ''S2''" "strip (ascii ''Bob'') = ascii ''Bob''"
    by (simp_all add: eval_simps)
  show ?thesis
    using mark_attendance_succeeds_once [OF unique stored fresh nonblank utf8,
        of "''2024-01-03T10:00:09''" "''2024-01-03T10:00:15''"]
    unfolding trimmed by simp
qed

text \<open>
  With a stored token and a student id that is a lone surrogate (non-blank, and recorded
  for no session) the first call does not succeed: binding the student id raises
  \<open>UnicodeEncodeError\<close>, which nothing catches, and nothing is stored.
\<close>

theorem mark_attendance_surrogate_student_id:
  "tokens_unique example_db \<and>
   \<lparr>s_id = 1, s_token = ascii ''abc123'', s_class_name = ascii ''Algorithms 101'',
     s_created_at = ''2024-01-01T09:00:00''\<rparr> \<in> set (sessions example_db) \<and>
   attendance example_db = [] \<and> strip [55296] = [55296] \<and>
   mark_attendance (mark_request (ascii ''abc123'') [55296] (ascii ''Ada''))
       ''2024-01-01T10:00:00'' example_db = (Unhandled UnicodeEncodeError, example_db)"
  by (simp add: example_db_eq tokens_unique_def mark_attendance_request eval_simps)

text \<open>
  C2, as the handler has it. The fields are validated before the token is looked up, and
  the token is bound as UTF-8 for the lookup. So a request whose three fields are
  non-blank after trimming and whose trimmed token has a UTF-8 form and is the token of
  no stored session answers 404, the not-found signal, whatever the student id and the
  name are, and leaves the database unchanged.
\<close>

theorem mark_attendance_unknown_token:
  assumes unknown: "strip token \<notin> s_token ` set (sessions d)"
    and nonblank: "strip token \<noteq> []" "strip student_id \<noteq> []" "strip student_name \<noteq> []"
    and utf8: "encodable (strip token)"
  shows "mark_attendance (mark_request token student_id student_name) now d =
           (Json False ''Invalid session token'' 404, d)"
proof -
  have "select_session (strip token) d = None"
    using unknown by (force simp: select_session_def find_None_iff)
  then show ?thesis
    using nonblank utf8 by (simp add: mark_attendance_request)
qed

theorem mark_attendance_unknown_token_witness:
  "mark_attendance (mark_request (ascii ''nosuchtoken'') [55296] (ascii ''Ada''))
       ''2024-01-01T10:00:00'' example_db =
     (Json False ''Invalid session token'' 404, example_db)"
proof -
  have unknown: "strip (ascii ''nosuchtoken'') \<notin> s_token ` set (sessions example_db)"
    by (simp add: example_db_eq eval_simps)
  have nonblank: "strip (ascii ''nosuchtoken'') \<noteq> []" "strip [55296] \<noteq> []"
      "strip (ascii ''Ada'') \<noteq> []"
    by (simp_all add: eval_simps)
  have utf8: "encodable (strip (ascii ''nosuchtoken''))"
    by (simp add: eval_simps)
  show ?thesis
    using mark_attendance_unknown_token [OF unknown nonblank utf8] .
qed

text \<open>
  With an unknown token and an empty student id the answer is 400, not 404: the outcome
  for an unknown token does depend on the other two fields. And with an unknown token
  that is a lone surrogate the lookup itself raises \<open>UnicodeEncodeError\<close>.
\<close>

theorem mark_attendance_unknown_token_other_answers:
  "ascii ''nosuchtoken'' \<notin> s_token ` set (sessions example_db) \<and>
   mark_attendance (mark_request (ascii ''nosuchtoken'') [] (ascii ''Ada''))
       ''2024-01-01T10:00:00'' example_db =
     (Json False ''token, student_id and student_name are required'' 400, example_db) \<and>
   [55296] \<notin> s_token ` set (sessions example_db) \<and>
   mark_attendance (mark_request [55296] (ascii ''S1'') (ascii ''Ada''))
       ''2024-01-01T10:00:00'' example_db = (Unhandled UnicodeEncodeError, example_db)"
  by (simp add: mark_attendance_request example_db_eq eval_simps)

text \<open>
  C3, as the handler has it. The three fields are trimmed before they are checked, and
  trimming a field that holds a truthy value other than a text raises. So take a request
  whose JSON object holds, in each of the three fields, a text, nothing, null or another
  falsy value, and in at least one of them nothing, a falsy value, the empty text or a
  text of whitespace only. It answers 400, the validation error, and both tables are as
  they were: the handler returns before it reads or writes the database.
\<close>

theorem mark_attendance_blank_field:
  assumes fields: "text_value (json_member kvs (ascii ''token''))"
      "text_value (json_member kvs (ascii ''student_id''))"
      "text_value (json_member kvs (ascii ''student_name''))"
    and blank: "blank_value (json_member kvs (ascii ''token'')) \<or>
      blank_value (json_member kvs (ascii ''student_id'')) \<or>
      blank_value (json_member kvs (ascii ''student_name''))"
  shows "mark_attendance (Some (JObj kvs)) now d =
           (Json False ''token, student_id and student_name are required'' 400, d)"
proof -
  obtain t where t: "field (payload_of (Some (JObj kvs))) (ascii ''token'') = Inr t"
      "blank_value (json_member kvs (ascii ''token'')) \<longrightarrow> t = []"
    using field_text_value [OF fields(1)] by blast
  obtain i where i: "field (payload_of (Some (JObj kvs))) (ascii ''student_id'') = Inr i"
      "blank_value (json_member kvs (ascii ''student_id'')) \<longrightarrow> i = []"
    using field_text_value [OF fields(2)] by blast
  obtain n where n: "field (payload_of (Some (JObj kvs))) (ascii ''student_name'') = Inr n"
      "blank_value (json_member kvs (ascii ''student_name'')) \<longrightarrow> n = []"
    using field_text_value [OF fields(3)] by blast
  have "t = [] \<or> i = [] \<or> n = []"
    using blank t(2) i(2) n(2) by blast
  then show ?thesis
    using t(1) i(1) n(1) by (auto simp: mark_attendance_def Let_def)
qed

theorem mark_attendance_blank_field_witness:
  "mark_attendance
     (Some (JObj [(ascii ''token'', JStr (ascii ''abc123'')),
                  (ascii ''student_id'', JStr [32, 9, 8195]),
                  (ascii ''student_name'', JNull)]))
     ''2024-01-01T10:00:00'' example_db =
     (Json False ''token, student_id and student_name are required'' 400, example_db)"
proof -
  let ?kvs = "[(ascii ''token'', JStr (ascii ''abc123'')),
               (ascii ''student_id'', JStr [32, 9, 8195]),
               (ascii ''student_name'', JNull)]"
  have fields: "text_value (json_member ?kvs (ascii ''token''))"
      "text_value (json_member ?kvs (ascii ''student_id''))"
      "text_value (json_member ?kvs (ascii ''student_name''))"
    by (simp_all add: text_value_def json_member_def keys_neq)
  have blank: "blank_value (json_member ?kvs (ascii ''token'')) \<or>
      blank_value (json_member ?kvs (ascii ''student_id'')) \<or>
      blank_value (json_member ?kvs (ascii ''student_name''))"
    by (simp add: blank_value_def json_member_def keys_neq isspace_def)
  show ?thesis
    using mark_attendance_blank_field [OF fields blank] .
qed

text \<open>
  With an empty student id and a name that is a list, the request is not answered by
  400: trimming the name raises \<open>AttributeError\<close> before the check of line 140.
\<close>

theorem mark_attendance_blank_id_list_name:
  "blank_value (json_member
      [(ascii ''token'', JStr (ascii ''abc123'')), (ascii ''student_id'', JStr []),
       (ascii ''student_name'', JArr [JStr (ascii ''x'')])] (ascii ''student_id'')) \<and>
   mark_attendance
     (Some (JObj [(ascii ''token'', JStr (ascii ''abc123'')), (ascii ''student_id'', JStr []),
                  (ascii ''student_name'', JArr [JStr (ascii ''x'')])]))
     ''2024-01-01T10:00:00'' example_db = (Unhandled AttributeError, example_db)"
  by (simp add: blank_value_def json_member_def keys_neq mark_attendance_def payload_of_def
      field_def py_get_def or_empty_strip_def strip_def)

text \<open>The same for a body with three text fields, one of them whitespace only.\<close>

lemma mark_attendance_blank_text:
  assumes "(\<forall>c \<in> set token. isspace c) \<or> (\<forall>c \<in> set student_id. isspace c) \<or>
      (\<forall>c \<in> set student_name. isspace c)"
  shows "mark_attendance (mark_request token student_id student_name) now d =
           (Json False ''token, student_id and student_name are required'' 400, d)"
  using assms by (auto simp: mark_attendance_request strip_Nil_iff)

section \<open>Creating a session\<close>

text \<open>
  C4. When the submitted class name is empty or whitespace only (or the form has no such
  field), \<open>CreateSession\<close> changes nothing: it redirects to the home page, no session is
  stored and the database is the one it started from.
\<close>

theorem create_session_blank_noop:
  assumes "\<forall>c \<in> set (case form_class_name of None \<Rightarrow> [] | Some v \<Rightarrow> v). isspace c"
  shows "create_session form_class_name token created_at d = (Redirect Home, d)"
  using assms by (simp add: create_session_def strip_Nil_iff)

theorem create_session_blank_noop_witness:
  "create_session (Some [32, 160, 10]) (ascii ''q3Zr8kXw1LmN0a'') ''2024-01-01T09:00:00''
      example_db = (Redirect Home, example_db)"
proof -
  have "\<forall>c \<in> set (case Some [32, 160, 10] of None \<Rightarrow> [] | Some v \<Rightarrow> v). isspace c"
    by (simp add: isspace_def)
  then show ?thesis
    by (rule create_session_blank_noop)
qed

text \<open>
  C5, as the handler has it. The token is drawn at random and not compared with the
  stored ones. For a class name that is not blank, whenever the token drawn differs from
  every stored token, \<open>CreateSession\<close> stores one new session under it, with the trimmed
  class name, and the lookup by that token in the new database returns this session.
\<close>

theorem create_session_roundtrip:
  assumes nonblank: "strip class_name \<noteq> []"
    and fresh: "token \<notin> s_token ` set (sessions d)"
  shows "\<exists>d' session.
      create_session (Some class_name) token created_at d =
        (Redirect (Session_detail token), d') \<and>
      sessions d' = sessions d @ [session] \<and>
      select_session token d' = Some session \<and>
      s_token session = token \<and> s_class_name session = strip class_name \<and>
      s_created_at session = created_at \<and> s_id session \<notin> s_id ` set (sessions d)"
proof -
  let ?i = "next_rowid (seq_sessions d) (map s_id (sessions d))"
  let ?s = "\<lparr>s_id = ?i, s_token = token, s_class_name = strip class_name,
             s_created_at = created_at\<rparr>"
  let ?d = "d\<lparr>sessions := sessions d @ [?s], seq_sessions := ?i\<rparr>"
  have none: "\<forall>r \<in> set (sessions d). \<not> s_token r = token"
    using fresh by auto
  then have ins: "insert_session token (strip class_name) created_at d = Inr ?d"
    by (simp add: insert_session_def Let_def)
  have created: "create_session (Some class_name) token created_at d =
      (Redirect (Session_detail token), ?d)"
    using nonblank ins by (simp add: create_session_def Let_def)
  have found: "select_session token ?d = Some ?s"
    using none by (simp add: select_session_def find_append_new)
  have new_id: "s_id ?s \<notin> s_id ` set (sessions d)"
    using next_rowid_gt [of _ "map s_id (sessions d)" "seq_sessions d"] by auto
  from created found new_id show ?thesis
    by (intro exI [of _ ?d] exI [of _ ?s]) simp
qed

theorem create_session_roundtrip_witness:
  "\<exists>d' session.
      create_session (Some (ascii '' Data Structures '')) (ascii ''Zk1_0v-9QbT3xY'')
          ''2024-01-02T09:00:00'' example_db =
        (Redirect (Session_detail (ascii ''Zk1_0v-9QbT3xY'')), d') \<and>
      sessions d' = sessions example_db @ [session] \<and>
      select_session (ascii ''Zk1_0v-9QbT3xY'') d' = Some session \<and>
      s_token session = ascii ''Zk1_0v-9QbT3xY'' \<and>
      s_class_name session = ascii ''Data Structures'' \<and>
      s_created_at session = ''2024-01-02T09:00:00'' \<and>
      s_id session \<notin> s_id ` set (sessions example_db)"
proof -
  have trimmed: "strip (ascii '' Data Structures '') = ascii ''Data Structures''"
    by (simp add: eval_simps)
  have nonblank: "strip (ascii '' Data Structures '') \<noteq> []"
    by (simp add: eval_simps)
  have fresh: "ascii ''Zk1_0v-9QbT3xY'' \<notin> s_token ` set (sessions example_db)"
    by (simp add: example_db_eq eval_simps)
  show ?thesis
    using create_session_roundtrip [OF nonblank fresh, of "''2024-01-02T09:00:00''"]
    unfolding trimmed .
qed

text \<open>
  When the token drawn is a stored one, the insert is refused, the exception is not
  caught, no session is created, and the lookup by that token still returns the older
  session with its own class name.
\<close>

theorem create_session_collision:
  "ascii ''q3Zr8kXw1LmN0a'' \<in> s_token ` set (sessions collision_db) \<and>
   create_session (Some (ascii ''Data Structures'')) (ascii ''q3Zr8kXw1LmN0a'')
       ''2024-01-02T09:00:00'' collision_db = (Unhandled IntegrityError, collision_db) \<and>
   map_option s_class_name (select_session (ascii ''q3Zr8kXw1LmN0a'') collision_db) =
     Some (ascii ''Algorithms 101'')"
  by (simp add: collision_db_eq eval_simps)

lemma create_session_token_taken:
  assumes "strip class_name \<noteq> []" and "token \<in> s_token ` set (sessions d)"
  shows "create_session (Some class_name) token created_at d = (Unhandled IntegrityError, d)"
  using assms by (auto simp: create_session_def insert_session_def Let_def)

section \<open>Invariants and listings\<close>

text \<open>
  C6. Every state reached from a new database by any sequence of requests holds at most
  one attendance record for each pair \<open>(session_id, student_id)\<close>, and every request
  (creating a session, marking attendance, each of the reads) keeps that property.
\<close>

theorem attendance_pairs_unique:
  "att_unique (run rs init_db) \<and> (att_unique d \<longrightarrow> att_unique (snd (handle r d)))"
proof
  have "att_unique init_db"
    by (rule att_unique_init)
  then show "att_unique (run rs init_db)"
    by (rule att_unique_run)
next
  show "att_unique d \<longrightarrow> att_unique (snd (handle r d))"
  proof
    assume inv: "att_unique d"
    consider "snd (handle r d) = d"
      | sid i n now where "insert_attendance sid i n now d = Inr (snd (handle r d))"
      | t c now where "insert_session t c now d = Inr (snd (handle r d))"
      using handle_effect [of r d] by blast
    then show "att_unique (snd (handle r d))"
    proof cases
      case 1
      with inv show ?thesis by simp
    next
      case 2
      with inv show ?thesis by (rule att_unique_insert)
    next
      case 3
      with inv show ?thesis by (rule att_unique_insert_session)
    qed
  qed
qed

theorem attendance_pairs_unique_witness:
  "att_unique example_db \<and>
   att_unique (run [Post_create_session (Some (ascii ''Algorithms 101'')) (ascii ''abc123'')
                      ''2024-01-01T09:00:00'',
                    Post_mark_attendance
                      (mark_request (ascii ''abc123'') (ascii ''S1'') (ascii ''Ada''))
                      ''2024-01-01T10:00:00'',
                    Post_mark_attendance
                      (mark_request (ascii ''abc123'') (ascii '' S1 '') (ascii ''Ada L.''))
                      ''2024-01-01T10:00:07''] init_db) \<and>
   att_unique (snd (handle (Post_mark_attendance
                      (mark_request (ascii ''abc123'') (ascii ''S1'') (ascii ''Ada''))
                      ''2024-01-01T10:00:00'') example_db))"
proof -
  have "att_unique example_db"
    by (simp add: example_db_eq att_unique_def)
  then show ?thesis
    using attendance_pairs_unique by blast
qed

text \<open>
  C7. In every state reached from a new database, \<open>ListSessions\<close> (the home page)
  returns all stored sessions, the most recently created first: the table in the reverse
  of the order of creation.
\<close>

theorem home_most_recent_first:
  "home (run rs init_db) = (Home_html (rev (sessions (run rs init_db))), run rs init_db)"
proof -
  have "ids_increasing init_db"
    by (simp add: ids_increasing_def init_db_def)
  then have "ids_increasing (run rs init_db)"
    by (rule ids_increasing_run)
  then show ?thesis
    by (simp add: home_def select_sessions_rev)
qed

theorem home_most_recent_first_witness:
  "home two_sessions_db =
     (Home_html
        [\<lparr>s_id = 2, s_token = ascii ''Zk1_0v-9QbT3xY'', s_class_name = ascii ''Data Structures'',
          s_created_at = ''2024-01-02T09:00:00''\<rparr>,
         \<lparr>s_id = 1, s_token = ascii ''abc123'', s_class_name = ascii ''Algorithms 101'',
          s_created_at = ''2024-01-01T09:00:00''\<rparr>],
      two_sessions_db)"
  using home_most_recent_first
    [of "[Post_create_session (Some (ascii ''Algorithms 101'')) (ascii ''abc123'')
            ''2024-01-01T09:00:00'',
          Post_create_session (Some (ascii ''Data Structures'')) (ascii ''Zk1_0v-9QbT3xY'')
            ''2024-01-02T09:00:00'']"]
  unfolding two_sessions_db_def [symmetric]
  by (simp add: two_sessions_db_eq)

text \<open>
  C8. \<open>ListAttendance(session_id)\<close> returns exactly the records of that session (their
  columns student id, name and time, each record once) and lists them by \<open>marked_at\<close>,
  the most recent first.
\<close>

theorem select_attendance_matching_sorted:
  "mset (select_attendance session_id d) =
     mset (map attendance_view (filter (\<lambda>r. a_session_id r = session_id) (attendance d))) \<and>
   sorted_wrt (\<lambda>x y. snd (snd y) \<le> snd (snd x)) (select_attendance session_id d)"
proof -
  let ?rows = "filter (\<lambda>r. a_session_id r = session_id) (attendance d)"
  have "sorted (map a_marked_at (sort_key a_marked_at ?rows))"
    by (rule sorted_sort_key)
  then have "sorted_wrt (\<lambda>x y. a_marked_at x \<le> a_marked_at y) (sort_key a_marked_at ?rows)"
    by (simp add: sorted_wrt_map)
  then have "sorted_wrt (\<lambda>x y. a_marked_at y \<le> a_marked_at x)
      (rev (sort_key a_marked_at ?rows))"
    by (simp add: sorted_wrt_rev)
  then have ordered: "sorted_wrt (\<lambda>x y. snd (snd y) \<le> snd (snd x))
      (select_attendance session_id d)"
    by (simp add: select_attendance_def order_by_desc_def sorted_wrt_map attendance_view_def)
  have same: "mset (select_attendance session_id d) = mset (map attendance_view ?rows)"
    by (simp add: select_attendance_def order_by_desc_def)
  from same ordered show ?thesis ..
qed

theorem select_attendance_matching_sorted_witness:
  "select_attendance 1 marked_db =
     [(ascii ''S2'', ascii ''Bob'', ''2024-01-03T10:00:05''),
      (ascii ''S1'', ascii ''Ada'', ''2024-01-03T10:00:00'')] \<and>
   mset (select_attendance 1 marked_db) =
     mset (map attendance_view (filter (\<lambda>r. a_session_id r = 1) (attendance marked_db))) \<and>
   sorted_wrt (\<lambda>x y. snd (snd y) \<le> snd (snd x)) (select_attendance 1 marked_db)"
  using select_attendance_matching_sorted [of 1 marked_db] select_attendance_marked_db
  by blast

text \<open>
  C9. No request changes or removes a stored session or attendance record: after any
  request each table is the table before it, followed by the rows the request added.
\<close>

theorem stored_records_kept:
  "\<exists>new_sessions new_attendance.
     sessions (snd (handle r d)) = sessions d @ new_sessions \<and>
     attendance (snd (handle r d)) = attendance d @ new_attendance"
proof -
  consider "snd (handle r d) = d"
    | sid i n now where "insert_attendance sid i n now d = Inr (snd (handle r d))"
    | t c now where "insert_session t c now d = Inr (snd (handle r d))"
    using handle_effect [of r d] by blast
  then show ?thesis
  proof cases
    case 1
    then show ?thesis by simp
  next
    case 2
    show ?thesis
      using insert_attendance_Inr(1,2) [OF 2] by simp
  next
    case 3
    show ?thesis
      using insert_session_Inr(1,2) [OF 3] by simp
  qed
qed

theorem stored_records_kept_witness:
  "\<exists>new_sessions new_attendance.
     sessions (snd (handle (Post_mark_attendance
         (mark_request (ascii ''abc123'') (ascii ''S2'') (ascii ''Bob'')) ''2024-01-01T10:00:09'')
         marked_once_db)) = sessions marked_once_db @ new_sessions \<and>
     attendance (snd (handle (Post_mark_attendance
         (mark_request (ascii ''abc123'') (ascii ''S2'') (ascii ''Bob'')) ''2024-01-01T10:00:09'')
         marked_once_db)) = attendance marked_once_db @ new_attendance"
  by (rule stored_records_kept)



end
